theory Spec2Isabelle
  imports Main
begin

section \<open>Data model\<close>

text \<open>
  The entities are the rows the Prisma client returns. The Prisma schema is not part of the
  sources at hand, so each record lists the fields that the service, the controllers and the
  integration tests read. Dates are milliseconds since the epoch.
\<close>

datatype TicketStatus = RESERVED | PAID

record User =
  user_id :: int
  user_email :: string

record Enrollment =
  enrollment_id :: int
  enrollment_userId :: int

record TicketType =
  ticketType_id :: int
  isRemote :: bool
  includesHotel :: bool

record Ticket =
  ticket_id :: int
  ticket_ticketTypeId :: int
  ticket_enrollmentId :: int
  ticket_status :: TicketStatus

record Hotel =
  hotel_id :: int
  hotel_name :: string
  hotel_image :: string
  hotel_createdAt :: int
  hotel_updatedAt :: int

record Room =
  room_id :: int
  room_name :: string
  room_capacity :: int
  room_hotelId :: int
  room_createdAt :: int
  room_updatedAt :: int

text \<open>The shapes produced by Prisma's \<open>include\<close>: a row extended by its related rows.\<close>

record TicketWithTicketType = Ticket +
  TicketType :: "TicketType option"

record EnrollmentWithTickets = Enrollment +
  Ticket :: "TicketWithTicketType list"

record UserWithTicketType = User +
  Enrollment :: "EnrollmentWithTickets list"

text \<open>\<open>type HotelWithRooms = Hotel & { Rooms: Room[] }\<close> (hotels-service).\<close>

record HotelWithRooms = Hotel +
  Rooms :: "Room list"

text \<open>The persisted state: one list of rows per table, in storage order.\<close>

record database =
  user_rows :: "User list"
  enrollment_rows :: "Enrollment list"
  ticket_rows :: "Ticket list"
  ticketType_rows :: "TicketType list"
  hotel_rows :: "Hotel list"
  room_rows :: "Room list"

section \<open>Errors and promises\<close>

text \<open>
  A thrown JavaScript value, identified by its \<open>name\<close> property, which is what the
  controllers dispatch on.
\<close>

datatype error = Error (error_name: string)

definition TypeError :: error where
  "TypeError = Error ''TypeError''"

text \<open>
  Modelled from the spec: the module \<open>@/errors\<close> is not among the sources. Its two
  constructors build the failure kinds \<open>Forbidden\<close> and \<open>NotFound\<close>; the names are the
  strings that the controller of \<open>getHotelWithRooms\<close> compares \<open>error.name\<close> with.
\<close>

definition forbiddenError :: error where
  "forbiddenError = Error ''ForbiddenError''"

definition notFoundError :: error where
  "notFoundError = Error ''NotFoundError''"

text \<open>
  An \<open>async\<close> function is a computation over the database that either rejects with an
  error or resolves with a value, and hands the database on.
\<close>

type_synonym 'a promise = "database \<Rightarrow> (error + 'a) \<times> database"

definition resolve :: "'a \<Rightarrow> 'a promise" where
  "resolve v db = (Inr v, db)"

definition throw :: "error \<Rightarrow> 'a promise" where
  "throw e db = (Inl e, db)"

text \<open>\<open>const v = await p; k v\<close>: a rejection of \<open>p\<close> leaves the function at once.\<close>

definition await :: "'a promise \<Rightarrow> ('a \<Rightarrow> 'b promise) \<Rightarrow> 'b promise" where
  "await p k db = (case p db of (Inl e, db') \<Rightarrow> (Inl e, db') | (Inr v, db') \<Rightarrow> k v db')"

section \<open>The Prisma client\<close>

text \<open>
  The queries the repositories issue. A read query leaves every table as it is; it rejects
  when the storage cannot answer it, which \<open>fault\<close> records per query, and resolves with
  the rows it selects otherwise.
\<close>

datatype prisma_query = UserFindFirst | HotelFindMany | HotelFindFirst

type_synonym faults = "prisma_query \<Rightarrow> error option"

definition prisma_read :: "faults \<Rightarrow> prisma_query \<Rightarrow> (database \<Rightarrow> 'a) \<Rightarrow> 'a promise" where
  "prisma_read fault q rows db =
     (case fault q of Some e \<Rightarrow> (Inl e, db) | None \<Rightarrow> (Inr (rows db), db))"

definition no_fault :: faults where
  "no_fault q = None"

section \<open>user-repository\<close>

definition include_TicketType :: "database \<Rightarrow> Ticket \<Rightarrow> TicketWithTicketType" where
  "include_TicketType db t =
     Ticket.extend t
       (TicketWithTicketType.fields
          (find (\<lambda>tt. ticketType_id tt = ticket_ticketTypeId t) (ticketType_rows db)))"

definition include_Ticket :: "database \<Rightarrow> Enrollment \<Rightarrow> EnrollmentWithTickets" where
  "include_Ticket db e =
     Enrollment.extend e
       (EnrollmentWithTickets.fields
          (map (include_TicketType db)
             (filter (\<lambda>t. ticket_enrollmentId t = enrollment_id e) (ticket_rows db))))"

definition include_Enrollment :: "database \<Rightarrow> User \<Rightarrow> UserWithTicketType" where
  "include_Enrollment db u =
     User.extend u
       (UserWithTicketType.fields
          (map (include_Ticket db)
             (filter (\<lambda>e. enrollment_userId e = user_id u) (enrollment_rows db))))"

text \<open>
  \<open>prisma.user.findFirst({ include: { Enrollment: { include: { Ticket: { include:
  { TicketType: true } } } } } })\<close>: the query has no \<open>where\<close>, so it selects the first row
  of the user table, or \<open>null\<close> when the table is empty. The parameter \<open>userId\<close> is not used.
\<close>

definition findUserWithTicketTypeByUserId :: "faults \<Rightarrow> int \<Rightarrow> UserWithTicketType option promise" where
  "findUserWithTicketTypeByUserId fault userId =
     prisma_read fault UserFindFirst
       (\<lambda>db. case user_rows db of [] \<Rightarrow> None | u # _ \<Rightarrow> Some (include_Enrollment db u))"

section \<open>hotel-repository\<close>

text \<open>
  The module \<open>@/repositories/hotel-repository\<close> is not among the sources. The service is
  written against its two functions, so they are a parameter of the service.
\<close>

record hotel_repository =
  findHotels :: "Hotel list promise"
  findHotelWithRoomsById :: "int \<Rightarrow> HotelWithRooms option promise"

text \<open>
  Modelled from the spec: the hotel-repository module is missing. The Data Access Gateway
  contract gives \<open>listHotels\<close> as the hotels in ascending order of id, possibly none, and
  \<open>fetchHotelWithRooms\<close> as the hotel with the given id together with its rooms in ascending
  order of id, absent when no hotel has that id. Both are reads, and a read that the
  storage cannot complete is an infrastructure failure.
\<close>

definition hotelRepository :: "faults \<Rightarrow> hotel_repository" where
  "hotelRepository fault =
     \<lparr> findHotels = prisma_read fault HotelFindMany (\<lambda>db. sort_key hotel_id (hotel_rows db)),
       findHotelWithRoomsById = (\<lambda>hotelId.
         prisma_read fault HotelFindFirst
           (\<lambda>db. case find (\<lambda>h. hotel_id h = hotelId) (hotel_rows db) of
                   None \<Rightarrow> None
                 | Some h \<Rightarrow>
                     Some (Hotel.extend h
                       (HotelWithRooms.fields
                          (sort_key room_id
                             (filter (\<lambda>r. room_hotelId r = hotel_id h) (room_rows db))))))) \<rparr>"

definition read_only :: "hotel_repository \<Rightarrow> bool" where
  "read_only hr \<longleftrightarrow>
     (\<forall>db. snd (findHotels hr db) = db) \<and>
     (\<forall>hotelId db. snd (findHotelWithRoomsById hr hotelId db) = db)"

section \<open>hotels-service\<close>

text \<open>
  \<open>isAllowed\<close> of \<open>services/hotels-service/index.ts\<close>. Reading \<open>.Enrollment\<close> of \<open>null\<close>
  throws a TypeError; every later link of the chain is read with \<open>?.\<close>, so a missing link
  gives \<open>undefined\<close>. Reading \<open>.status\<close> of \<open>undefined\<close> would throw as well.
\<close>

definition isAllowed :: "faults \<Rightarrow> int \<Rightarrow> bool promise" where
  "isAllowed fault userId =
     await (findUserWithTicketTypeByUserId fault userId) (\<lambda>userWithTicketTypeByUserId.
       case userWithTicketTypeByUserId of
         None \<Rightarrow> throw TypeError
       | Some u \<Rightarrow>
           (let ticketWithTicketType =
                  (case Enrollment u of
                     [] \<Rightarrow> None
                   | e # _ \<Rightarrow> (case Ticket e of [] \<Rightarrow> None | t # _ \<Rightarrow> Some t));
                ticketType =
                  (case ticketWithTicketType of None \<Rightarrow> None | Some t \<Rightarrow> TicketType t)
            in case ticketType of
                 None \<Rightarrow> resolve False
               | Some ticketType \<Rightarrow>
                   (case ticketWithTicketType of
                      None \<Rightarrow> throw TypeError
                    | Some t \<Rightarrow>
                        (let isPaidTicket = (ticket_status t = PAID);
                             isHostableTicket =
                               (\<not> isRemote ticketType \<and> includesHotel ticketType);
                             isPaidAndHostableTicket = (isPaidTicket \<and> isHostableTicket)
                         in if \<not> isPaidAndHostableTicket then resolve False
                            else resolve True))))"

text \<open>
  \<open>isAllowed\<close> of the second copy of the service (\<open>unnamed/part_001\<close>), which reads
  \<open>Enrollment?.[0].Ticket?.[0]\<close>: the first enrollment is read without \<open>?.\<close>, so
  \<open>.Ticket\<close> of \<open>undefined\<close> throws when the user has no enrollment.
\<close>

definition isAllowed_part_001 :: "faults \<Rightarrow> int \<Rightarrow> bool promise" where
  "isAllowed_part_001 fault userId =
     await (findUserWithTicketTypeByUserId fault userId) (\<lambda>userWithTicketTypeByUserId.
       case userWithTicketTypeByUserId of
         None \<Rightarrow> throw TypeError
       | Some u \<Rightarrow>
           (case Enrollment u of
              [] \<Rightarrow> throw TypeError
            | e # _ \<Rightarrow>
                (let ticketWithTicketType = (case Ticket e of [] \<Rightarrow> None | t # _ \<Rightarrow> Some t);
                     ticketType =
                       (case ticketWithTicketType of None \<Rightarrow> None | Some t \<Rightarrow> TicketType t)
                 in case ticketType of
                      None \<Rightarrow> resolve False
                    | Some ticketType \<Rightarrow>
                        (case ticketWithTicketType of
                           None \<Rightarrow> throw TypeError
                         | Some t \<Rightarrow>
                             (let isPaidTicket = (ticket_status t = PAID);
                                  isHostableTicket =
                                    (\<not> isRemote ticketType \<and> includesHotel ticketType);
                                  isPaidAndHostableTicket = (isPaidTicket \<and> isHostableTicket)
                              in if \<not> isPaidAndHostableTicket then resolve False
                                 else resolve True)))))"

definition getHotels :: "hotel_repository \<Rightarrow> faults \<Rightarrow> int \<Rightarrow> Hotel list promise" where
  "getHotels hr fault userId =
     await (isAllowed fault userId) (\<lambda>allowed.
       if \<not> allowed then throw forbiddenError
       else await (findHotels hr) (\<lambda>hotels. resolve hotels))"

definition getHotelWithRooms ::
  "hotel_repository \<Rightarrow> faults \<Rightarrow> int \<Rightarrow> int \<Rightarrow> HotelWithRooms promise" where
  "getHotelWithRooms hr fault userId hotelId =
     await (isAllowed fault userId) (\<lambda>allowed.
       if \<not> allowed then throw forbiddenError
       else await (findHotelWithRoomsById hr hotelId) (\<lambda>hotelWithRooms.
         case hotelWithRooms of
           None \<Rightarrow> throw notFoundError
         | Some h \<Rightarrow> resolve h))"

section \<open>hotels-controller\<close>

text \<open>
  The status codes of the http-status package, and what a handler does with \<open>res\<close>:
  \<open>res.status(c).send(body)\<close>, \<open>res.sendStatus(c)\<close>, or returning without a response.
\<close>

definition OK :: nat where "OK = 200"
definition FORBIDDEN :: nat where "FORBIDDEN = 403"
definition NOT_FOUND :: nat where "NOT_FOUND = 404"

datatype 'a response = Send nat 'a | SendStatus nat | NoResponse

fun status_of :: "'a response \<Rightarrow> nat option" where
  "status_of (Send c b) = Some c"
| "status_of (SendStatus c) = Some c"
| "status_of NoResponse = None"

text \<open>
  The request as the handlers read it: \<open>req.userId\<close>, set by the authentication middleware,
  and \<open>Number(req.params.hotelId)\<close>, the value of the digit string the router has validated.
\<close>

record AuthenticatedRequest =
  req_userId :: int
  req_hotelId :: int

definition controller_getHotels ::
  "hotel_repository \<Rightarrow> faults \<Rightarrow> AuthenticatedRequest \<Rightarrow> database
     \<Rightarrow> Hotel list response \<times> database" where
  "controller_getHotels hr fault req db =
     (case getHotels hr fault (req_userId req) db of
        (Inr hotels, db') \<Rightarrow> (Send OK hotels, db')
      | (Inl error, db') \<Rightarrow> (SendStatus FORBIDDEN, db'))"

definition controller_getHotelWithRooms ::
  "hotel_repository \<Rightarrow> faults \<Rightarrow> AuthenticatedRequest \<Rightarrow> database
     \<Rightarrow> HotelWithRooms response \<times> database" where
  "controller_getHotelWithRooms hr fault req db =
     (case getHotelWithRooms hr fault (req_userId req) (req_hotelId req) db of
        (Inr hotelWithRooms, db') \<Rightarrow> (Send OK hotelWithRooms, db')
      | (Inl error, db') \<Rightarrow>
          (if error_name error = ''ForbiddenError'' then SendStatus FORBIDDEN
           else if error_name error = ''NotFoundError'' then SendStatus NOT_FOUND
           else NoResponse, db'))"

section \<open>Eligibility in the spec's words\<close>

text \<open>
  Following the spec's words, for comparison with \<open>isAllowed\<close>: the ticket context of a user
  is the first ticket, with its ticket type, of the first enrollment of the user with the
  given id, and is absent when the user, the enrollment, the ticket or the ticket type is
  missing; a user is eligible when the context is present, paid, not remote and includes
  hotel.
\<close>

definition spec_fetchTicketContextForUser :: "database \<Rightarrow> int \<Rightarrow> TicketWithTicketType option" where
  "spec_fetchTicketContextForUser db userId =
     (case find (\<lambda>u. user_id u = userId) (user_rows db) of
        None \<Rightarrow> None
      | Some u \<Rightarrow>
          (case Enrollment (include_Enrollment db u) of
             [] \<Rightarrow> None
           | e # _ \<Rightarrow>
               (case Ticket e of
                  [] \<Rightarrow> None
                | t # _ \<Rightarrow> (case TicketType t of None \<Rightarrow> None | Some tt \<Rightarrow> Some t))))"

definition spec_isEligible :: "TicketWithTicketType option \<Rightarrow> bool" where
  "spec_isEligible context =
     (case context of
        None \<Rightarrow> False
      | Some t \<Rightarrow>
          (case TicketType t of
             None \<Rightarrow> False
           | Some tt \<Rightarrow> ticket_status t = PAID \<and> \<not> isRemote tt \<and> includesHotel tt))"

section \<open>Sample databases\<close>

definition alice :: User where
  "alice = \<lparr> user_id = 1, user_email = ''alice@example.org'' \<rparr>"

definition bob :: User where
  "bob = \<lparr> user_id = 2, user_email = ''bob@example.org'' \<rparr>"

definition hostable :: TicketType where
  "hostable = \<lparr> ticketType_id = 7, isRemote = False, includesHotel = True \<rparr>"

definition bobs_ticket :: Ticket where
  "bobs_ticket = \<lparr> ticket_id = 100, ticket_ticketTypeId = 7, ticket_enrollmentId = 10,
                    ticket_status = PAID \<rparr>"

text \<open>No row in any table.\<close>

definition db_no_users :: database where
  "db_no_users = \<lparr> user_rows = [], enrollment_rows = [], ticket_rows = [],
                    ticketType_rows = [], hotel_rows = [], room_rows = [] \<rparr>"

text \<open>One user, who has no enrollment.\<close>

definition db_no_enrollment :: database where
  "db_no_enrollment = db_no_users \<lparr> user_rows := [alice] \<rparr>"

text \<open>One user, with an enrollment and a paid ticket of a hostable type; no hotel.\<close>

definition db_eligible :: database where
  "db_eligible = \<lparr> user_rows = [bob],
                    enrollment_rows = [\<lparr> enrollment_id = 10, enrollment_userId = 2 \<rparr>],
                    ticket_rows = [bobs_ticket],
                    ticketType_rows = [hostable],
                    hotel_rows = [], room_rows = [] \<rparr>"

text \<open>The same with a first user row, Alice, who has no enrollment.\<close>

definition db_two_users :: database where
  "db_two_users = db_eligible \<lparr> user_rows := [alice, bob] \<rparr>"

text \<open>Bob's database with one hotel and one room, the room written later than the hotel.\<close>

definition grand_hotel :: Hotel where
  "grand_hotel = \<lparr> hotel_id = 1, hotel_name = ''Grand'', hotel_image = ''grand.png'',
                    hotel_createdAt = 5, hotel_updatedAt = 6 \<rparr>"

definition room_101 :: Room where
  "room_101 = \<lparr> room_id = 1, room_name = ''101'', room_capacity = 2, room_hotelId = 1,
                 room_createdAt = 8, room_updatedAt = 9 \<rparr>"

definition db_hotel :: database where
  "db_hotel = db_eligible \<lparr> hotel_rows := [grand_hotel], room_rows := [room_101] \<rparr>"

text \<open>
  The hotel database with two user rows: Alice, who has no enrollment, and Bob, in either
  order.
\<close>

definition db_hotel_alice_first :: database where
  "db_hotel_alice_first = db_hotel \<lparr> user_rows := [alice, bob] \<rparr>"

definition db_hotel_bob_first :: database where
  "db_hotel_bob_first = db_hotel \<lparr> user_rows := [bob, alice] \<rparr>"

text \<open>A storage that cannot answer any query.\<close>

definition storage_down :: faults where
  "storage_down q = Some (Error ''PrismaClientInitializationError'')"

section \<open>Evaluation rules\<close>

lemmas promise_defs = resolve_def throw_def await_def prisma_read_def

lemmas repository_defs =
  findUserWithTicketTypeByUserId_def include_Enrollment_def include_Ticket_def
  include_TicketType_def hotelRepository_def
  User.extend_def Enrollment.extend_def Ticket.extend_def Hotel.extend_def
  UserWithTicketType.fields_def EnrollmentWithTickets.fields_def
  TicketWithTicketType.fields_def HotelWithRooms.fields_def

lemmas sample_defs =
  alice_def bob_def hostable_def bobs_ticket_def db_no_users_def db_no_enrollment_def
  db_eligible_def db_two_users_def grand_hotel_def room_101_def db_hotel_def
  db_hotel_alice_first_def db_hotel_bob_first_def storage_down_def no_fault_def

lemmas spec_defs = spec_fetchTicketContextForUser_def spec_isEligible_def

lemmas error_defs = TypeError_def forbiddenError_def notFoundError_def

section \<open>The database is handed on unchanged\<close>

lemma prisma_read_snd: "snd (prisma_read fault q rows db) = db"
  by (simp add: prisma_read_def split: option.split)

lemma findUser_snd: "snd (findUserWithTicketTypeByUserId fault userId db) = db"
  by (simp add: findUserWithTicketTypeByUserId_def prisma_read_snd)

lemma await_snd:
  assumes "\<And>d. snd (p d) = d" and "\<And>v d. snd (k v d) = d"
  shows "snd (await p k db) = db"
proof (cases "p db")
  case (Pair r d)
  with assms(1) [of db] have "d = db" by simp
  with Pair assms(2) show ?thesis
    by (cases r) (simp_all add: await_def)
qed

lemma isAllowed_snd: "snd (isAllowed fault userId db) = db"
  unfolding isAllowed_def
  by (rule await_snd)
     (auto simp: findUser_snd resolve_def throw_def Let_def split: option.split list.split)

lemma isAllowed_pair: "isAllowed fault userId db = (fst (isAllowed fault userId db), db)"
  by (metis isAllowed_snd prod.collapse)

lemma hotelRepository_read_only: "read_only (hotelRepository fault)"
  by (simp add: read_only_def hotelRepository_def prisma_read_snd)

lemma throw_snd: "snd (throw e db) = db"
  by (simp add: throw_def)

lemma resolve_snd: "snd (resolve v db) = db"
  by (simp add: resolve_def)

lemma await_resolves: "p db = (Inr v, db') \<Longrightarrow> await p k db = k v db'"
  by (simp add: await_def)

lemma await_rejects: "fst (p db) = Inl e \<Longrightarrow> fst (await p k db) = Inl e"
  by (cases "p db") (simp add: await_def)

section \<open>The user lookup\<close>

text \<open>
  C1. The lookup is meant to return the enrollment, ticket and ticket type chain of the user
  named by \<open>userId\<close>. At \<open>userId = 2\<close> on a database whose first user row is another user,
  it returns that other user's record: Bob, who holds a paid hostable ticket, is looked up as
  Alice, who has no enrollment, and is refused; alone in the table he is allowed.
\<close>

theorem findUserWithTicketTypeByUserId_returns_first_user:
  "findUserWithTicketTypeByUserId no_fault 2 db_two_users =
     (Inr (Some \<lparr> user_id = 1, user_email = ''alice@example.org'', Enrollment = [] \<rparr>),
      db_two_users)
   \<and> fst (isAllowed no_fault 2 db_two_users) = Inr False
   \<and> fst (isAllowed no_fault 2 db_eligible) = Inr True"
  by (simp add: isAllowed_def repository_defs promise_defs sample_defs)

section \<open>The eligibility decision\<close>

text \<open>
  C2. When the lookup resolves with a user record whose first enrollment has a first ticket
  with a ticket type, \<open>isAllowed\<close> resolves with true if and only if the ticket is PAID and
  its type has \<open>isRemote = false\<close> and \<open>includesHotel = true\<close>, and with false otherwise; in
  particular changing any one of the three, with the other two at the eligible values,
  gives false.
\<close>

theorem isAllowed_iff_paid_hostable:
  assumes "findUserWithTicketTypeByUserId fault userId db = (Inr (Some u), db')"
    and "Enrollment u = e # es" and "Ticket e = t # ts" and "TicketType t = Some tt"
  shows "(fst (isAllowed fault userId db) = Inr True \<longleftrightarrow>
            ticket_status t = PAID \<and> isRemote tt = False \<and> includesHotel tt = True)
       \<and> (fst (isAllowed fault userId db) = Inr False \<longleftrightarrow>
            \<not> (ticket_status t = PAID \<and> isRemote tt = False \<and> includesHotel tt = True))
       \<and> (ticket_status t \<noteq> PAID \<and> isRemote tt = False \<and> includesHotel tt = True
            \<longrightarrow> fst (isAllowed fault userId db) = Inr False)
       \<and> (ticket_status t = PAID \<and> isRemote tt = True \<and> includesHotel tt = True
            \<longrightarrow> fst (isAllowed fault userId db) = Inr False)
       \<and> (ticket_status t = PAID \<and> isRemote tt = False \<and> includesHotel tt = False
            \<longrightarrow> fst (isAllowed fault userId db) = Inr False)"
  using assms by (simp add: isAllowed_def await_def resolve_def Let_def)

theorem isAllowed_iff_paid_hostable_witness:
  "findUserWithTicketTypeByUserId no_fault 2 db_eligible =
     (Inr (Some (include_Enrollment db_eligible bob)), db_eligible)
   \<and> Enrollment (include_Enrollment db_eligible bob) =
       [include_Ticket db_eligible \<lparr> enrollment_id = 10, enrollment_userId = 2 \<rparr>]
   \<and> Ticket (include_Ticket db_eligible \<lparr> enrollment_id = 10, enrollment_userId = 2 \<rparr>) =
       [include_TicketType db_eligible bobs_ticket]
   \<and> TicketType (include_TicketType db_eligible bobs_ticket) = Some hostable
   \<and> ticket_status (include_TicketType db_eligible bobs_ticket) = PAID
   \<and> isRemote hostable = False \<and> includesHotel hostable = True
   \<and> fst (isAllowed no_fault 2 db_eligible) = Inr True"
proof -
  have 1: "findUserWithTicketTypeByUserId no_fault 2 db_eligible =
     (Inr (Some (include_Enrollment db_eligible bob)), db_eligible)"
    by (simp add: findUserWithTicketTypeByUserId_def promise_defs sample_defs)
  have 2: "Enrollment (include_Enrollment db_eligible bob) =
       [include_Ticket db_eligible \<lparr> enrollment_id = 10, enrollment_userId = 2 \<rparr>]"
    by (simp add: repository_defs sample_defs)
  have 3: "Ticket (include_Ticket db_eligible \<lparr> enrollment_id = 10, enrollment_userId = 2 \<rparr>) =
       [include_TicketType db_eligible bobs_ticket]"
    by (simp add: repository_defs sample_defs)
  have 4: "TicketType (include_TicketType db_eligible bobs_ticket) = Some hostable"
    by (simp add: repository_defs sample_defs)
  have 5: "ticket_status (include_TicketType db_eligible bobs_ticket) = PAID
     \<and> isRemote hostable = False \<and> includesHotel hostable = True"
    by (simp add: repository_defs sample_defs)
  from isAllowed_iff_paid_hostable [OF 1 2 3 4] 1 2 3 4 5 show ?thesis by simp
qed

text \<open>
  C3, as stated, fails where the lookup resolves with no user record: \<open>isAllowed\<close> rejects
  with a TypeError instead of resolving with false.
\<close>

theorem isAllowed_no_user_record_raises:
  "findUserWithTicketTypeByUserId no_fault 1 db_no_users = (Inr None, db_no_users)
   \<and> fst (isAllowed no_fault 1 db_no_users) = Inl TypeError
   \<and> fst (isAllowed no_fault 1 db_no_users) \<noteq> Inr False"
  by (simp add: isAllowed_def repository_defs promise_defs sample_defs)

text \<open>
  The copy of the service in \<open>unnamed/part_001\<close> rejects already for a user without an
  enrollment.
\<close>

lemma isAllowed_part_001_no_enrollment_raises:
  "fst (isAllowed_part_001 no_fault 1 db_no_enrollment) = Inl TypeError"
  by (simp add: isAllowed_part_001_def repository_defs promise_defs sample_defs)

text \<open>
  C3, amended. Whenever the lookup resolves with a user record, \<open>isAllowed\<close> resolves with
  a boolean, and with false when the user has no enrollment, when the first enrollment has
  no ticket, and when the first ticket has no ticket type. The copy of the service in
  \<open>unnamed/part_001\<close> agrees with it on every user record that has an enrollment.
\<close>

theorem isAllowed_total_on_user_record:
  assumes "findUserWithTicketTypeByUserId fault userId db = (Inr (Some u), db')"
  shows "(\<exists>b. fst (isAllowed fault userId db) = Inr b)
       \<and> (Enrollment u = [] \<longrightarrow> fst (isAllowed fault userId db) = Inr False)
       \<and> (\<forall>e es. Enrollment u = e # es \<and> Ticket e = []
            \<longrightarrow> fst (isAllowed fault userId db) = Inr False)
       \<and> (\<forall>e es t ts. Enrollment u = e # es \<and> Ticket e = t # ts \<and> TicketType t = None
            \<longrightarrow> fst (isAllowed fault userId db) = Inr False)
       \<and> (Enrollment u \<noteq> []
            \<longrightarrow> isAllowed_part_001 fault userId db = isAllowed fault userId db)"
  using assms
  by (auto simp: isAllowed_def isAllowed_part_001_def await_def resolve_def throw_def Let_def
           split: list.split option.split)

theorem isAllowed_total_on_user_record_witness:
  "findUserWithTicketTypeByUserId no_fault 1 db_no_enrollment =
     (Inr (Some \<lparr> user_id = 1, user_email = ''alice@example.org'', Enrollment = [] \<rparr>),
      db_no_enrollment)
   \<and> fst (isAllowed no_fault 1 db_no_enrollment) = Inr False"
proof -
  have 1: "findUserWithTicketTypeByUserId no_fault 1 db_no_enrollment =
     (Inr (Some \<lparr> user_id = 1, user_email = ''alice@example.org'', Enrollment = [] \<rparr>),
      db_no_enrollment)"
    by (simp add: repository_defs promise_defs sample_defs)
  from isAllowed_total_on_user_record [OF 1] 1 show ?thesis by simp
qed

section \<open>The two queries\<close>

text \<open>
  What the service does with the outcome of \<open>isAllowed\<close>, for any hotel repository: on false
  it fails with Forbidden without a lookup; on true \<open>getHotels\<close> is the repository's
  \<open>findHotels\<close>, and \<open>getHotelWithRooms\<close> is the repository's lookup with \<open>null\<close> turned into
  NotFound.
\<close>

lemma getHotelWithRooms_not_allowed:
  assumes "fst (isAllowed fault userId db) = Inr False"
  shows "getHotelWithRooms hr fault userId hotelId db = (Inl forbiddenError, db)"
proof -
  from assms have "isAllowed fault userId db = (Inr False, db)"
    using isAllowed_pair [of fault userId db] by simp
  then show ?thesis
    by (simp add: getHotelWithRooms_def await_def throw_def)
qed

lemma getHotels_allowed:
  assumes "fst (isAllowed fault userId db) = Inr True"
  shows "getHotels hr fault userId db = findHotels hr db"
proof -
  from assms have "isAllowed fault userId db = (Inr True, db)"
    using isAllowed_pair [of fault userId db] by simp
  then show ?thesis
    by (cases "findHotels hr db")
       (auto simp: getHotels_def await_def resolve_def split: sum.split)
qed

lemma getHotelWithRooms_allowed:
  assumes "fst (isAllowed fault userId db) = Inr True"
  shows "getHotelWithRooms hr fault userId hotelId db =
           (case findHotelWithRoomsById hr hotelId db of
              (Inl e, db') \<Rightarrow> (Inl e, db')
            | (Inr None, db') \<Rightarrow> (Inl notFoundError, db')
            | (Inr (Some h), db') \<Rightarrow> (Inr h, db'))"
proof -
  from assms have "isAllowed fault userId db = (Inr True, db)"
    using isAllowed_pair [of fault userId db] by simp
  then show ?thesis
    by (cases "findHotelWithRoomsById hr hotelId db")
       (auto simp: getHotelWithRooms_def await_def resolve_def throw_def
             split: sum.split option.split)
qed

text \<open>
  When the caller's row is the first of the user table and the storage answers, \<open>isAllowed\<close>
  resolves with the caller's own eligibility.
\<close>

lemma isAllowed_own_row_first:
  assumes "user_rows db = u # us" and "user_id u = userId" and "fault UserFindFirst = None"
  shows "fst (isAllowed fault userId db) =
           Inr (spec_isEligible (spec_fetchTicketContextForUser db userId))"
  using assms
  by (simp add: isAllowed_def findUserWithTicketTypeByUserId_def promise_defs spec_defs Let_def
           split: list.split option.split)

text \<open>
  C4. An ineligible user is to get Forbidden for every hotel id, never NotFound, without a
  hotel lookup. Alice has no enrollment, so she is not eligible; with eligible Bob's row
  first in the user table, \<open>isAllowed\<close> resolves with true for her id, the hotel lookup runs,
  and for hotel 99, which no row has, she gets NotFound.
\<close>

theorem getHotelWithRooms_ineligible_user_notFound:
  "spec_isEligible (spec_fetchTicketContextForUser db_hotel_bob_first 1) = False
   \<and> find (\<lambda>h. hotel_id h = 99) (hotel_rows db_hotel_bob_first) = None
   \<and> fst (isAllowed no_fault 1 db_hotel_bob_first) = Inr True
   \<and> fst (getHotelWithRooms (hotelRepository no_fault) no_fault 1 99 db_hotel_bob_first) =
       Inl notFoundError"
  by (simp add: getHotelWithRooms_def isAllowed_def repository_defs promise_defs sample_defs
        spec_defs error_defs)

text \<open>
  C5. An eligible user is to get the gateway's hotel list. Bob holds a paid ticket of a type
  that is not remote and includes hotel, so he is eligible; with Alice's row first in the
  user table, \<open>getHotels\<close> fails with Forbidden for his id, whatever the hotel repository.
\<close>

theorem getHotels_eligible_user_forbidden:
  "spec_isEligible (spec_fetchTicketContextForUser db_two_users 2) = True
   \<and> fst (isAllowed no_fault 2 db_two_users) = Inr False
   \<and> fst (getHotels hr no_fault 2 db_two_users) = Inl forbiddenError"
  by (simp add: getHotels_def isAllowed_def repository_defs promise_defs sample_defs spec_defs)

text \<open>
  C6. An eligible user is to get NotFound exactly when no hotel has the id, and the hotel
  with its rooms otherwise. With Alice's row first, eligible Bob gets Forbidden for hotel 2,
  which no row has, instead of NotFound, whatever the hotel repository.
\<close>

theorem getHotelWithRooms_eligible_user_missing_hotel_forbidden:
  "spec_isEligible (spec_fetchTicketContextForUser db_hotel_alice_first 2) = True
   \<and> find (\<lambda>h. hotel_id h = 2) (hotel_rows db_hotel_alice_first) = None
   \<and> fst (getHotelWithRooms hr no_fault 2 2 db_hotel_alice_first) = Inl forbiddenError
   \<and> fst (getHotelWithRooms hr no_fault 2 2 db_hotel_alice_first) \<noteq> Inl notFoundError"
  by (simp add: getHotelWithRooms_def isAllowed_def repository_defs promise_defs sample_defs
        spec_defs error_defs)

text \<open>
  C7. An eligible user asking for an existing hotel is to get that hotel's fields and its
  room entries. With Alice's row first, eligible Bob gets Forbidden for hotel 1, which
  exists and has one room, and no detail at all, whatever the hotel repository.
\<close>

theorem getHotelWithRooms_eligible_user_existing_hotel_forbidden:
  "spec_isEligible (spec_fetchTicketContextForUser db_hotel_alice_first 2) = True
   \<and> find (\<lambda>h. hotel_id h = 1) (hotel_rows db_hotel_alice_first) = Some grand_hotel
   \<and> filter (\<lambda>r. room_hotelId r = 1) (room_rows db_hotel_alice_first) = [room_101]
   \<and> fst (getHotelWithRooms hr no_fault 2 1 db_hotel_alice_first) = Inl forbiddenError"
  by (simp add: getHotelWithRooms_def isAllowed_def repository_defs promise_defs sample_defs
        spec_defs)

section \<open>Failures at the boundary\<close>

text \<open>
  C8, as stated, fails when the storage cannot answer: the failure reaches the controller of
  \<open>getHotels\<close> unchanged and is answered with 403, the status of Forbidden.
\<close>

theorem controller_getHotels_classifies_infrastructure_failure:
  "fst (getHotels (hotelRepository storage_down) storage_down 2 db_hotel) =
     Inl (Error ''PrismaClientInitializationError'')
   \<and> fst (controller_getHotels (hotelRepository storage_down) storage_down
            \<lparr> req_userId = 2, req_hotelId = 1 \<rparr> db_hotel) = SendStatus FORBIDDEN"
  by (simp add: controller_getHotels_def getHotels_def isAllowed_def repository_defs
        promise_defs sample_defs)

text \<open>
  For the same failure the controller of \<open>getHotelWithRooms\<close> matches neither name and
  returns without a response.
\<close>

lemma controller_getHotelWithRooms_no_response:
  "fst (controller_getHotelWithRooms (hotelRepository storage_down) storage_down
          \<lparr> req_userId = 2, req_hotelId = 1 \<rparr> db_hotel) = NoResponse"
  by (simp add: controller_getHotelWithRooms_def getHotelWithRooms_def isAllowed_def
        repository_defs promise_defs sample_defs)

text \<open>
  C8, amended. A failure of a gateway fetch leaves the service unchanged, from the user
  lookup and from either hotel lookup. The controller of \<open>getHotels\<close> answers every
  failure with 403. The controller of \<open>getHotelWithRooms\<close> answers Forbidden with 403 and
  NotFound with 404, and answers a failure of any other name with neither.
\<close>

theorem failures_at_the_boundary:
  "(fault UserFindFirst = Some e \<longrightarrow>
      fst (getHotels hr fault userId db) = Inl e
      \<and> fst (getHotelWithRooms hr fault userId hotelId db) = Inl e)
   \<and> (fst (isAllowed fault userId db) = Inr True \<and> fst (findHotels hr db) = Inl e \<longrightarrow>
        fst (getHotels hr fault userId db) = Inl e)
   \<and> (fst (isAllowed fault userId db) = Inr True
        \<and> fst (findHotelWithRoomsById hr hotelId db) = Inl e \<longrightarrow>
        fst (getHotelWithRooms hr fault userId hotelId db) = Inl e)
   \<and> (fst (getHotels hr fault (req_userId req) db) = Inl e \<longrightarrow>
        fst (controller_getHotels hr fault req db) = SendStatus FORBIDDEN)
   \<and> (fst (getHotelWithRooms hr fault (req_userId req) (req_hotelId req) db) =
          Inl forbiddenError \<longrightarrow>
        fst (controller_getHotelWithRooms hr fault req db) = SendStatus FORBIDDEN)
   \<and> (fst (getHotelWithRooms hr fault (req_userId req) (req_hotelId req) db) =
          Inl notFoundError \<longrightarrow>
        fst (controller_getHotelWithRooms hr fault req db) = SendStatus NOT_FOUND)
   \<and> (fst (getHotelWithRooms hr fault (req_userId req) (req_hotelId req) db) = Inl e
        \<and> error_name e \<noteq> ''ForbiddenError'' \<and> error_name e \<noteq> ''NotFoundError'' \<longrightarrow>
        status_of (fst (controller_getHotelWithRooms hr fault req db)) \<noteq> Some FORBIDDEN
        \<and> status_of (fst (controller_getHotelWithRooms hr fault req db)) \<noteq> Some NOT_FOUND)"
proof (intro conjI impI)
  assume f: "fault UserFindFirst = Some e"
  then have "fst (isAllowed fault userId db) = Inl e"
    by (simp add: isAllowed_def findUserWithTicketTypeByUserId_def promise_defs)
  then show "fst (getHotels hr fault userId db) = Inl e"
    and "fst (getHotelWithRooms hr fault userId hotelId db) = Inl e"
    unfolding getHotels_def getHotelWithRooms_def by (rule await_rejects)+
next
  assume "fst (isAllowed fault userId db) = Inr True \<and> fst (findHotels hr db) = Inl e"
  then have "isAllowed fault userId db = (Inr True, db)" and "fst (findHotels hr db) = Inl e"
    using isAllowed_pair [of fault userId db] by simp_all
  then show "fst (getHotels hr fault userId db) = Inl e"
    by (simp add: getHotels_def await_resolves await_rejects)
next
  assume "fst (isAllowed fault userId db) = Inr True
    \<and> fst (findHotelWithRoomsById hr hotelId db) = Inl e"
  then have "isAllowed fault userId db = (Inr True, db)"
    and "fst (findHotelWithRoomsById hr hotelId db) = Inl e"
    using isAllowed_pair [of fault userId db] by simp_all
  then show "fst (getHotelWithRooms hr fault userId hotelId db) = Inl e"
    by (simp add: getHotelWithRooms_def await_resolves await_rejects)
next
  assume "fst (getHotels hr fault (req_userId req) db) = Inl e"
  then show "fst (controller_getHotels hr fault req db) = SendStatus FORBIDDEN"
    by (cases "getHotels hr fault (req_userId req) db") (simp add: controller_getHotels_def)
next
  assume "fst (getHotelWithRooms hr fault (req_userId req) (req_hotelId req) db) =
    Inl forbiddenError"
  then show "fst (controller_getHotelWithRooms hr fault req db) = SendStatus FORBIDDEN"
    by (cases "getHotelWithRooms hr fault (req_userId req) (req_hotelId req) db")
       (simp add: controller_getHotelWithRooms_def forbiddenError_def)
next
  assume "fst (getHotelWithRooms hr fault (req_userId req) (req_hotelId req) db) =
    Inl notFoundError"
  then show "fst (controller_getHotelWithRooms hr fault req db) = SendStatus NOT_FOUND"
    by (cases "getHotelWithRooms hr fault (req_userId req) (req_hotelId req) db")
       (simp add: controller_getHotelWithRooms_def notFoundError_def)
next
  assume a: "fst (getHotelWithRooms hr fault (req_userId req) (req_hotelId req) db) = Inl e
    \<and> error_name e \<noteq> ''ForbiddenError'' \<and> error_name e \<noteq> ''NotFoundError''"
  then have n: "fst (controller_getHotelWithRooms hr fault req db) = NoResponse"
    by (cases "getHotelWithRooms hr fault (req_userId req) (req_hotelId req) db")
       (simp add: controller_getHotelWithRooms_def)
  from n show "status_of (fst (controller_getHotelWithRooms hr fault req db)) \<noteq> Some FORBIDDEN"
    by simp
  from n show "status_of (fst (controller_getHotelWithRooms hr fault req db)) \<noteq> Some NOT_FOUND"
    by simp
qed

theorem failures_at_the_boundary_witness:
  "storage_down UserFindFirst = Some (Error ''PrismaClientInitializationError'')
   \<and> fst (getHotels (hotelRepository storage_down) storage_down 2 db_hotel) =
       Inl (Error ''PrismaClientInitializationError'')
   \<and> fst (getHotelWithRooms (hotelRepository storage_down) storage_down 2 1 db_hotel) =
       Inl (Error ''PrismaClientInitializationError'')
   \<and> fst (controller_getHotels (hotelRepository storage_down) storage_down
            \<lparr> req_userId = 2, req_hotelId = 1 \<rparr> db_hotel) = SendStatus FORBIDDEN
   \<and> fst (getHotelWithRooms (hotelRepository no_fault) no_fault 1 1 db_no_enrollment) =
       Inl forbiddenError
   \<and> fst (controller_getHotelWithRooms (hotelRepository no_fault) no_fault
            \<lparr> req_userId = 1, req_hotelId = 1 \<rparr> db_no_enrollment) = SendStatus FORBIDDEN
   \<and> fst (getHotelWithRooms (hotelRepository no_fault) no_fault 2 2 db_hotel) =
       Inl notFoundError
   \<and> fst (controller_getHotelWithRooms (hotelRepository no_fault) no_fault
            \<lparr> req_userId = 2, req_hotelId = 2 \<rparr> db_hotel) = SendStatus NOT_FOUND"
proof -
  let ?e = "Error ''PrismaClientInitializationError''"
  have 1: "storage_down UserFindFirst = Some ?e"
    by (simp add: storage_down_def)
  have 2: "fst (getHotelWithRooms (hotelRepository no_fault) no_fault 1 1 db_no_enrollment) =
       Inl forbiddenError"
    by (simp add: getHotelWithRooms_def isAllowed_def repository_defs promise_defs sample_defs)
  have 3: "fst (getHotelWithRooms (hotelRepository no_fault) no_fault 2 2 db_hotel) =
       Inl notFoundError"
    by (simp add: getHotelWithRooms_def isAllowed_def repository_defs promise_defs sample_defs)
  note a = failures_at_the_boundary [of storage_down ?e "hotelRepository storage_down" 2 db_hotel 1
      "\<lparr> req_userId = 2, req_hotelId = 1 \<rparr>"]
  note b = failures_at_the_boundary [of no_fault ?e "hotelRepository no_fault" 1 db_no_enrollment 1
      "\<lparr> req_userId = 1, req_hotelId = 1 \<rparr>"]
  note c = failures_at_the_boundary [of no_fault ?e "hotelRepository no_fault" 2 db_hotel 2
      "\<lparr> req_userId = 2, req_hotelId = 2 \<rparr>"]
  from a 1 have "fst (getHotels (hotelRepository storage_down) storage_down 2 db_hotel) = Inl ?e"
    and "fst (getHotelWithRooms (hotelRepository storage_down) storage_down 2 1 db_hotel) = Inl ?e"
    by blast+
  moreover from this(1) a
  have "fst (controller_getHotels (hotelRepository storage_down) storage_down
            \<lparr> req_userId = 2, req_hotelId = 1 \<rparr> db_hotel) = SendStatus FORBIDDEN"
    by simp
  moreover from b 2
  have "fst (controller_getHotelWithRooms (hotelRepository no_fault) no_fault
            \<lparr> req_userId = 1, req_hotelId = 1 \<rparr> db_no_enrollment) = SendStatus FORBIDDEN"
    by simp
  moreover from c 3
  have "fst (controller_getHotelWithRooms (hotelRepository no_fault) no_fault
            \<lparr> req_userId = 2, req_hotelId = 2 \<rparr> db_hotel) = SendStatus NOT_FOUND"
    by simp
  ultimately show ?thesis using 1 2 3 by simp
qed

section \<open>Frame and non-interference\<close>

text \<open>
  C9. With a hotel repository that only reads, the user lookup, \<open>isAllowed\<close>, \<open>getHotels\<close>
  and \<open>getHotelWithRooms\<close> hand on the database they were given, on every path, failures
  included.
\<close>

theorem service_leaves_database_unchanged:
  assumes "read_only hr"
  shows "snd (findUserWithTicketTypeByUserId fault userId db) = db
       \<and> snd (isAllowed fault userId db) = db
       \<and> snd (getHotels hr fault userId db) = db
       \<and> snd (getHotelWithRooms hr fault userId hotelId db) = db"
proof -
  from assms have fh: "snd (findHotels hr d) = d" for d
    by (simp add: read_only_def)
  from assms have fr: "snd (findHotelWithRoomsById hr i d) = d" for i d
    by (simp add: read_only_def)
  have "snd (await (findHotels hr) (\<lambda>hotels. resolve hotels) d) = d" for d
    by (rule await_snd) (simp_all add: fh resolve_snd)
  then have g: "snd (getHotels hr fault userId db) = db"
    unfolding getHotels_def
    by (intro await_snd) (simp_all add: isAllowed_snd throw_snd)
  have "snd (await (findHotelWithRoomsById hr hotelId)
               (\<lambda>hotelWithRooms. case hotelWithRooms of
                                   None \<Rightarrow> throw notFoundError
                                 | Some h \<Rightarrow> resolve h) d) = d" for d
    by (rule await_snd) (simp_all add: fr resolve_snd throw_snd split: option.split)
  then have r: "snd (getHotelWithRooms hr fault userId hotelId db) = db"
    unfolding getHotelWithRooms_def
    by (intro await_snd) (simp_all add: isAllowed_snd throw_snd)
  from g r show ?thesis
    by (simp add: findUser_snd isAllowed_snd)
qed

theorem service_leaves_database_unchanged_witness:
  "read_only (hotelRepository no_fault)
   \<and> snd (isAllowed no_fault 2 db_hotel) = db_hotel
   \<and> snd (getHotels (hotelRepository no_fault) no_fault 2 db_hotel) = db_hotel
   \<and> snd (getHotelWithRooms (hotelRepository no_fault) no_fault 2 1 db_hotel) = db_hotel"
proof -
  have 1: "read_only (hotelRepository no_fault)"
    by (simp add: read_only_def hotelRepository_def prisma_read_def sample_defs)
  from service_leaves_database_unchanged [OF 1] 1 show ?thesis by simp
qed

text \<open>
  C10. On a fixed database and storage, \<open>isAllowed\<close>, \<open>getHotels\<close> and \<open>getHotelWithRooms\<close>
  have the same outcome for any two user ids.
\<close>

theorem isAllowed_same_for_all_users:
  "isAllowed fault u1 db = isAllowed fault u2 db
   \<and> getHotels hr fault u1 db = getHotels hr fault u2 db
   \<and> getHotelWithRooms hr fault u1 hotelId db = getHotelWithRooms hr fault u2 hotelId db"
  by (simp add: isAllowed_def getHotels_def getHotelWithRooms_def
        findUserWithTicketTypeByUserId_def)

end
